theory Spec2Isabelle
  imports Complex_Main "HOL-Library.Sublist"
begin

section \<open>Values, messages and exceptions\<close>

text \<open>
  The task engine of \<^verbatim>\<open>src/core/task_engine.py\<close> is a small interpreter for a list of
  task records. Its state is the object \<^verbatim>\<open>self\<close>; its collaborators (the device
  transport, the vision backend, the clock and Python's own \<^verbatim>\<open>eval\<close>) are passed to
  every function of the model as a record of operations on an external world \<open>'w\<close>.

  Times are clock ticks (only sums and comparisons of times occur). Strings are lists of
  code points below 256. Stored values are the immutable Python values
  \<^verbatim>\<open>None\<close>, booleans, integers, floats and strings.
\<close>

type_synonym time = int

datatype pyfloat = Finite rat | PosInf | NegInf | NaN

datatype pyval = PNone | PBool bool | PInt int | PFloat pyfloat | PStr string

text \<open>Python's \<^verbatim>\<open>==\<close> on these values: numbers compare by value across
  \<^verbatim>\<open>bool\<close>, \<^verbatim>\<open>int\<close> and \<^verbatim>\<open>float\<close>, and a NaN equals nothing.\<close>

fun num_of :: "pyval \<Rightarrow> pyfloat option" where
  "num_of (PBool b) = Some (Finite (if b then 1 else 0))"
| "num_of (PInt i) = Some (Finite (of_int i))"
| "num_of (PFloat f) = Some f"
| "num_of PNone = None"
| "num_of (PStr s) = None"

fun py_eq :: "pyval \<Rightarrow> pyval \<Rightarrow> bool" where
  "py_eq PNone PNone = True"
| "py_eq (PStr a) (PStr b) = (a = b)"
| "py_eq a b = (case (num_of a, num_of b) of
      (Some x, Some y) \<Rightarrow> x \<noteq> NaN \<and> x = y
    | _ \<Rightarrow> False)"

text \<open>Truth value of a Python value, as \<^verbatim>\<open>if\<close> and \<^verbatim>\<open>not\<close> take it.\<close>

fun truthy :: "pyval \<Rightarrow> bool" where
  "truthy PNone = False"
| "truthy (PBool b) = b"
| "truthy (PInt i) = (i \<noteq> 0)"
| "truthy (PFloat f) = (f \<noteq> Finite 0)"
| "truthy (PStr s) = (s \<noteq> [])"

text \<open>
  A formatted string is the list of its segments: the literal parts of the template and
  the interpolated values. The literal parts are given in English here; the source has
  them in Chinese.
\<close>

datatype seg = Lit string | Arg pyval

type_synonym message = "seg list"

datatype exn_class =
  Exception | TimeoutError | ValueError | NameError | KeyError | SyntaxError | TypeError
  | ZeroDivisionError | AttributeError

datatype exn = Exn exn_class message

fun str_exn :: "exn \<Rightarrow> message" where
  "str_exn (Exn c m) = m"

fun opt_str :: "string option \<Rightarrow> pyval" where
  "opt_str None = PNone"
| "opt_str (Some s) = PStr s"

fun opt_int :: "int option \<Rightarrow> pyval" where
  "opt_int None = PNone"
| "opt_int (Some i) = PInt i"

section \<open>String operations of the Python library\<close>

text \<open>The characters \<^verbatim>\<open>str.strip()\<close> removes, among the first 256 code points.\<close>

definition is_space :: "char \<Rightarrow> bool" where
  "is_space c = (of_char c \<in> {9, 10, 11, 12, 13, 28, 29, 30, 31, 32, 133, 160 :: nat})"

definition strip :: "string \<Rightarrow> string" where
  "strip s = rev (dropWhile is_space (rev (dropWhile is_space s)))"

text \<open>\<^verbatim>\<open>s.split(c)\<close> for a one-character separator: one piece more than separators.\<close>

fun split_on :: "char \<Rightarrow> string \<Rightarrow> string list" where
  "split_on c [] = [[]]"
| "split_on c (x # xs) =
     (if x = c then [] # split_on c xs
      else (case split_on c xs of
              [] \<Rightarrow> [[x]]
            | p # ps \<Rightarrow> (x # p) # ps))"

text \<open>\<^verbatim>\<open>s.replace(old, new)\<close> for a non-empty \<open>old\<close>: left to right, without overlaps.\<close>

function str_replace :: "string \<Rightarrow> string \<Rightarrow> string \<Rightarrow> string" where
  "str_replace old new [] = []"
| "str_replace old new (x # xs) =
     (if old \<noteq> [] \<and> prefix old (x # xs)
      then new @ str_replace old new (drop (length old - 1) xs)
      else x # str_replace old new xs)"
  by pat_completeness auto
termination
  by (relation "measure (\<lambda>(old, new, s). length s)") auto

text \<open>
  \<^verbatim>\<open>re.sub(r'(?<![=<>!])=(?![=])', '==', expression)\<close>: every \<^verbatim>\<open>=\<close> whose left
  neighbour is none of \<^verbatim>\<open>= < > !\<close> and whose right neighbour is not \<^verbatim>\<open>=\<close> becomes
  \<^verbatim>\<open>==\<close>. The match is one character long and both look-arounds read the original
  string, so the substitution is decided position by position; \<open>prev\<close> is the character
  to the left in the original string.
\<close>

fun sub_bare_eq :: "char option \<Rightarrow> string \<Rightarrow> string" where
  "sub_bare_eq prev [] = []"
| "sub_bare_eq prev (c # cs) =
     (if c = CHR ''=''
         \<and> prev \<notin> {Some CHR ''='', Some CHR ''<'', Some CHR ''>'', Some CHR ''!''}
         \<and> (case cs of [] \<Rightarrow> True | d # ds \<Rightarrow> d \<noteq> CHR ''='')
      then ''=='' @ sub_bare_eq (Some c) cs
      else c # sub_bare_eq (Some c) cs)"

text \<open>The first three statements of \<^verbatim>\<open>_evaluate_expression\<close>.\<close>

definition rewrite_operators :: "string \<Rightarrow> string" where
  "rewrite_operators expression =
     sub_bare_eq None
       (str_replace ''!'' '' not ''
         (str_replace ''||'' '' or ''
           (str_replace ''&&'' '' and '' expression)))"

section \<open>Tasks, settings, engine state and collaborators\<close>

text \<open>
  A task is a dictionary read with \<^verbatim>\<open>task.get(key)\<close>: a key that is absent reads
  \<^verbatim>\<open>None\<close>, so every optional key is an \<open>option\<close>; a flag read with
  \<^verbatim>\<open>task.get(key, False)\<close> is a \<open>bool\<close>.
\<close>

record task =
  ttype :: "string option"
  description :: "string option"
  pre_condition :: "string option"
  post_action :: "string option"
  on_fail_action :: "string option"
  wait_for_success :: bool
  retries :: "int option"
  timeout :: "time option"
  continue_on_fail :: bool
  print_log :: bool
  enable_timer :: bool
  save_path :: "string option"
  task_x :: "int option"
  task_y :: "int option"
  task_x1 :: "int option"
  task_y1 :: "int option"
  task_x2 :: "int option"
  task_y2 :: "int option"
  duration :: "int option"
  package_name :: "string option"
  target_text :: "string option"
  target :: "string option"
  targets :: "string list option"
  lang :: "string option"
  task_threshold :: "rat option"
  judge_only :: bool
  variable_name :: "string option"
  task_name :: "string option"
  task_value :: "pyval option"

text \<open>The attributes of the engine that \<^verbatim>\<open>__init__\<close> reads from the settings.\<close>

record settings =
  device_id :: "string option"
  ocr_language :: string
  max_retries :: int
  retry_delay :: time
  default_timeout :: time
  task_delay :: time
  base_dir :: string

datatype image = Image nat

text \<open>
  The mutable attributes of the engine, the lines it has printed, the taps it has sent
  to the device, the number of times the action of a task has been started, and the
  world of its collaborators.
\<close>

record 'w engine =
  variables :: "string \<rightharpoonup> pyval"
  watched_variables :: "string set"
  current_task :: "task option"
  is_running :: bool
  last_success_time :: "time option"
  run_start_time :: "time option"
  success_counts :: "string \<rightharpoonup> int"
  threshold :: rat
  printed :: "message list"
  taps :: "(int \<times> int) list"
  invocations :: nat
  world :: 'w

text \<open>
  The collaborators: Python's \<^verbatim>\<open>eval\<close> (which may bind names in the scope it is
  given), \<^verbatim>\<open>int\<close> and \<^verbatim>\<open>float\<close> on strings, \<^verbatim>\<open>str.isidentifier\<close>,
  \<^verbatim>\<open>os.path.join\<close>, the clock, the device transport and the vision backend, and the
  two callbacks of \<^verbatim>\<open>run\<close>. An exception of \<open>py_eval\<close> is any instance of
  \<^verbatim>\<open>Exception\<close>.
\<close>

record 'w ext =
  py_eval :: "string \<Rightarrow> (string \<rightharpoonup> pyval) \<Rightarrow> (exn + pyval) \<times> (string \<rightharpoonup> pyval)"
  py_int :: "string \<Rightarrow> int option"
  py_float :: "string \<Rightarrow> pyfloat option"
  isidentifier :: "string \<Rightarrow> bool"
  path_join :: "string \<Rightarrow> string \<Rightarrow> string"
  time_now :: "'w \<Rightarrow> time"
  time_sleep :: "time \<Rightarrow> 'w \<Rightarrow> 'w"
  adb_connect_device :: "string \<Rightarrow> 'w \<Rightarrow> bool \<times> 'w"
  adb_screenshot :: "string \<Rightarrow> 'w \<Rightarrow> (bool \<times> string option) \<times> 'w"
  adb_tap :: "int \<Rightarrow> int \<Rightarrow> 'w \<Rightarrow> (bool \<times> string option) \<times> 'w"
  adb_swipe :: "int \<Rightarrow> int \<Rightarrow> int \<Rightarrow> int \<Rightarrow> int \<Rightarrow> 'w \<Rightarrow> (bool \<times> string option) \<times> 'w"
  adb_long_press :: "int \<Rightarrow> int \<Rightarrow> int \<Rightarrow> 'w \<Rightarrow> (bool \<times> string option) \<times> 'w"
  adb_restart_app :: "string \<Rightarrow> 'w \<Rightarrow> (bool \<times> string option) \<times> 'w"
  load_image :: "string \<Rightarrow> 'w \<Rightarrow> image option \<times> 'w"
  find_template :: "image \<Rightarrow> image \<Rightarrow> rat \<Rightarrow> 'w \<Rightarrow> (int \<times> int) option \<times> 'w"
  extract_text :: "image \<Rightarrow> string \<Rightarrow> 'w \<Rightarrow> string option \<times> 'w"
  find_text_location :: "image \<Rightarrow> string \<Rightarrow> string \<Rightarrow> 'w \<Rightarrow> ((int \<times> int) option \<times> string) \<times> 'w"
  is_running_callable :: "'w \<Rightarrow> bool \<times> 'w"
  progress_callback :: "(nat \<Rightarrow> nat \<Rightarrow> 'w \<Rightarrow> 'w) option"

section \<open>Logging and the variable store\<close>

text \<open>\<^verbatim>\<open>print\<close> appends a line to the lines printed so far.\<close>

definition print_line :: "message \<Rightarrow> 'w engine \<Rightarrow> 'w engine" where
  "print_line m s = s\<lparr>printed := printed s @ [m]\<rparr>"

text \<open>\<^verbatim>\<open>_log\<close>: prints without a task context, or when the task asks for its log.\<close>

definition log :: "task option \<Rightarrow> message \<Rightarrow> 'w engine \<Rightarrow> 'w engine" where
  "log t m s =
     (case t of
        None \<Rightarrow> print_line m s
      | Some tk \<Rightarrow> if print_log tk then print_line m s else s)"

text \<open>\<^verbatim>\<open>self.variables.get(name)\<close>: an absent name reads \<^verbatim>\<open>None\<close>.\<close>

definition get_variable :: "'w engine \<Rightarrow> string \<Rightarrow> pyval" where
  "get_variable s n = (case variables s n of None \<Rightarrow> PNone | Some v \<Rightarrow> v)"

definition watch_line :: "string \<Rightarrow> pyval \<Rightarrow> message" where
  "watch_line n v =
     [Lit ''watch log: variable '', Arg (PStr n), Lit '' updated to: '', Arg v]"

text \<open>\<^verbatim>\<open>_set_variable\<close>.\<close>

definition set_variable :: "string \<Rightarrow> pyval \<Rightarrow> 'w engine \<Rightarrow> 'w engine" where
  "set_variable n v s =
     (let old_value = get_variable s n in
      if py_eq old_value v then s
      else
        let s1 = s\<lparr>variables := (variables s)(n \<mapsto> v)\<rparr> in
        if n \<in> watched_variables s1 then print_line (watch_line n v) s1 else s1)"

section \<open>The expression evaluator\<close>

text \<open>
  The loop of \<^verbatim>\<open>_evaluate_expression\<close> over the clauses, with the scope that
  \<^verbatim>\<open>eval\<close> reads and may write. The \<^verbatim>\<open>try\<close> around a clause catches every
  exception, prints it and answers \<^verbatim>\<open>False\<close>. The result is a sum so that an
  exception that left the function would be a value \<open>Inl\<close>.
\<close>

fun eval_conditions ::
  "'w ext \<Rightarrow> string list \<Rightarrow> (string \<rightharpoonup> pyval) \<Rightarrow> 'w engine \<Rightarrow> (exn + bool) \<times> 'w engine" where
  "eval_conditions X [] local_scope s = (Inr True, s)"
| "eval_conditions X (cond # conds) local_scope s =
     (if cond = [] then eval_conditions X conds local_scope s
      else
        (case py_eval X cond local_scope of
           (Inl e, scope') \<Rightarrow>
             (Inr False,
              log None ([Lit ''error while evaluating expression '', Arg (PStr cond), Lit '': '']
                        @ str_exn e) s)
         | (Inr v, scope') \<Rightarrow>
             if \<not> truthy v then (Inr False, s)
             else eval_conditions X conds scope' s))"

definition evaluate_expression ::
  "'w ext \<Rightarrow> string \<Rightarrow> 'w engine \<Rightarrow> (exn + bool) \<times> 'w engine" where
  "evaluate_expression X expression s =
     (let expression' = rewrite_operators expression;
          local_scope = variables s;
          conditions = map strip (split_on CHR '';'' expression')
      in eval_conditions X conditions local_scope s)"

text \<open>
  The loop of \<^verbatim>\<open>_execute_action\<close> over the assignment statements.
  \<^verbatim>\<open>stmt.split('=', 1)\<close> cuts at the first \<^verbatim>\<open>=\<close>.
\<close>

fun exec_statements ::
  "'w ext \<Rightarrow> string list \<Rightarrow> (string \<rightharpoonup> pyval) \<Rightarrow> 'w engine \<Rightarrow> (exn + unit) \<times> 'w engine" where
  "exec_statements X [] local_scope s = (Inr (), s)"
| "exec_statements X (stmt # stmts) local_scope s =
     (if stmt = [] then exec_statements X stmts local_scope s
      else if CHR ''='' \<notin> set stmt
      then (Inl (Exn ValueError [Lit ''invalid assignment expression: '', Arg (PStr stmt)]), s)
      else
        let var_name = strip (takeWhile (\<lambda>c. c \<noteq> CHR ''='') stmt);
            expr = strip (tl (dropWhile (\<lambda>c. c \<noteq> CHR ''='') stmt))
        in
        if \<not> isidentifier X var_name
        then (Inl (Exn NameError [Lit ''invalid variable name: '', Arg (PStr var_name)]), s)
        else
          (case py_eval X expr local_scope of
             (Inl e, scope') \<Rightarrow> (Inl e, s)
           | (Inr v, scope') \<Rightarrow>
               exec_statements X stmts (scope'(var_name \<mapsto> v)) (set_variable var_name v s)))"

definition execute_action ::
  "'w ext \<Rightarrow> string \<Rightarrow> 'w engine \<Rightarrow> (exn + unit) \<times> 'w engine" where
  "execute_action X action s =
     (let local_scope = variables s;
          statements = map strip (split_on CHR '';'' action)
      in exec_statements X statements local_scope s)"

text \<open>\<^verbatim>\<open>_parse_value\<close>; \<^verbatim>\<open>value[2:-2]\<close> drops two characters at each end.\<close>

definition parse_value :: "'w ext \<Rightarrow> pyval \<Rightarrow> 'w engine \<Rightarrow> pyval" where
  "parse_value X v s =
     (case v of
        PStr str \<Rightarrow>
          if prefix ''{{'' str \<and> suffix ''}}'' str
          then get_variable s (strip (drop 2 (take (length str - 2) str)))
          else
            (case py_int X str of
               Some i \<Rightarrow> PInt i
             | None \<Rightarrow>
                 (case py_float X str of
                    Some f \<Rightarrow> PFloat f
                  | None \<Rightarrow> v))
      | _ \<Rightarrow> v)"

section \<open>The jump map\<close>

text \<open>
  \<^verbatim>\<open>_build_jump_map\<close>: \<open>i\<close> is the index of the next task, the stack has its top
  first.
\<close>

fun jump_map_loop ::
  "nat \<Rightarrow> nat list \<Rightarrow> (nat \<rightharpoonup> nat) \<Rightarrow> task list \<Rightarrow> exn + (nat \<rightharpoonup> nat)" where
  "jump_map_loop i stack jump_map [] =
     (case stack of
        [] \<Rightarrow> Inr jump_map
      | last_open # rest \<Rightarrow>
          Inl (Exn ValueError [Lit ''task '', Arg (PInt (int last_open)),
                               Lit '': LOOP without a matching END_LOOP'']))"
| "jump_map_loop i stack jump_map (t # ts) =
     (if ttype t = Some ''LOOP'' then jump_map_loop (Suc i) (i # stack) jump_map ts
      else if ttype t = Some ''END_LOOP'' then
        (case stack of
           [] \<Rightarrow>
             Inl (Exn ValueError [Lit ''task '', Arg (PInt (int i)),
                                  Lit '': END_LOOP without a matching LOOP''])
         | loop_index # rest \<Rightarrow>
             jump_map_loop (Suc i) rest (jump_map(loop_index \<mapsto> i, i \<mapsto> loop_index)) ts)
      else jump_map_loop (Suc i) stack jump_map ts)"

definition build_jump_map :: "task list \<Rightarrow> exn + (nat \<rightharpoonup> nat)" where
  "build_jump_map task_queue = jump_map_loop 0 [] Map.empty task_queue"

section \<open>The action handlers\<close>

text \<open>
  Calls of the collaborators thread the world through the engine state. A tap is also
  recorded in \<open>taps\<close>. \<^verbatim>\<open>time.sleep\<close> raises \<^verbatim>\<open>ValueError\<close> on a negative length.
\<close>

definition tap :: "'w ext \<Rightarrow> int \<Rightarrow> int \<Rightarrow> 'w engine \<Rightarrow> (bool \<times> string option) \<times> 'w engine" where
  "tap X px py s =
     (case adb_tap X px py (world s) of
        (r, w') \<Rightarrow> (r, s\<lparr>taps := taps s @ [(px, py)], world := w'\<rparr>))"

definition screenshot :: "'w ext \<Rightarrow> string \<Rightarrow> 'w engine \<Rightarrow> (bool \<times> string option) \<times> 'w engine" where
  "screenshot X path s =
     (case adb_screenshot X path (world s) of (r, w') \<Rightarrow> (r, s\<lparr>world := w'\<rparr>))"

definition load :: "'w ext \<Rightarrow> string \<Rightarrow> 'w engine \<Rightarrow> image option \<times> 'w engine" where
  "load X path s =
     (case load_image X path (world s) of (r, w') \<Rightarrow> (r, s\<lparr>world := w'\<rparr>))"

text \<open>\<^verbatim>\<open>find_template\<close> compares with the threshold the image processor holds.\<close>

definition match_template ::
  "'w ext \<Rightarrow> image \<Rightarrow> image \<Rightarrow> 'w engine \<Rightarrow> (int \<times> int) option \<times> 'w engine" where
  "match_template X source_img template_img s =
     (case find_template X source_img template_img (threshold s) (world s) of
        (r, w') \<Rightarrow> (r, s\<lparr>world := w'\<rparr>))"

definition sleep :: "'w ext \<Rightarrow> time \<Rightarrow> 'w engine \<Rightarrow> (exn + unit) \<times> 'w engine" where
  "sleep X d s =
     (if d < 0 then (Inl (Exn ValueError [Lit ''sleep length must be non-negative'']), s)
      else (Inr (), s\<lparr>world := time_sleep X d (world s)\<rparr>))"

definition key_error :: "string \<Rightarrow> exn" where
  "key_error k = Exn KeyError [Lit [CHR 0x27], Arg (PStr k), Lit [CHR 0x27]]"

text \<open>\<^verbatim>\<open>not s\<close> for an optional string: absent or empty.\<close>

fun falsy_str :: "string option \<Rightarrow> bool" where
  "falsy_str None = True"
| "falsy_str (Some str) = (str = [])"

definition handle_screenshot :: "'w ext \<Rightarrow> task \<Rightarrow> 'w engine \<Rightarrow> (exn + unit) \<times> 'w engine" where
  "handle_screenshot X t s =
     (case save_path t of
        None \<Rightarrow> (Inl (key_error ''save_path''), s)
      | Some path \<Rightarrow>
          (case screenshot X path s of
             ((success, msg), s1) \<Rightarrow>
               if \<not> success
               then (Inl (Exn Exception [Lit ''screenshot failed: '', Arg (opt_str msg)]), s1)
               else (Inr (), s1)))"

definition handle_long_press :: "'w ext \<Rightarrow> task \<Rightarrow> 'w engine \<Rightarrow> (exn + unit) \<times> 'w engine" where
  "handle_long_press X t s =
     (let d = (case duration t of None \<Rightarrow> 1000 | Some v \<Rightarrow> v) in
      case (task_x t, task_y t) of
        (Some px, Some py) \<Rightarrow>
          (let s1 = log (Some t) [Lit ''long press at: ('', Arg (PInt px), Lit '', '', Arg (PInt py),
                                  Lit ''), duration: '', Arg (PInt d), Lit ''ms''] s in
           case adb_long_press X px py d (world s1) of
             ((success, msg), w') \<Rightarrow>
               if \<not> success
               then (Inl (Exn Exception [Lit ''long press ('', Arg (PInt px), Lit '', '',
                                         Arg (PInt py), Lit '') failed: '', Arg (opt_str msg)]),
                     s1\<lparr>world := w'\<rparr>)
               else (Inr (), s1\<lparr>world := w'\<rparr>))
      | _ \<Rightarrow> (Inl (Exn Exception [Lit ''long press task lacks x or y'']), s))"

definition handle_restart_app :: "'w ext \<Rightarrow> task \<Rightarrow> 'w engine \<Rightarrow> (exn + unit) \<times> 'w engine" where
  "handle_restart_app X t s =
     (if falsy_str (package_name t)
      then (Inl (Exn Exception [Lit ''restart task lacks the package_name parameter'']), s)
      else
        let pkg = the (package_name t);
            s1 = log (Some t) [Lit ''restarting app: '', Arg (PStr pkg)] s
        in
        case adb_restart_app X pkg (world s1) of
          ((success, msg), w') \<Rightarrow>
            if \<not> success
            then (Inl (Exn Exception [Lit ''restarting app '', Arg (PStr pkg), Lit '' failed: '',
                                      Arg (opt_str msg)]),
                  s1\<lparr>world := w'\<rparr>)
            else (Inr (), s1\<lparr>world := w'\<rparr>))"

text \<open>The last step of \<^verbatim>\<open>_handle_click\<close>: tap the position that was found, if any.\<close>

definition click_at ::
  "'w ext \<Rightarrow> task \<Rightarrow> (int \<times> int) option \<Rightarrow> 'w engine \<Rightarrow> (exn + unit) \<times> 'w engine" where
  "click_at X t click_pos s =
     (case click_pos of
        None \<Rightarrow> (Inl (Exn Exception [Lit ''click task lacks a valid target (text/image/position)'']), s)
      | Some (final_x, final_y) \<Rightarrow>
          (let s1 = log (Some t) [Lit ''final click position: ('', Arg (PInt final_x), Lit '', '',
                                  Arg (PInt final_y), Lit '')''] s in
           case tap X final_x final_y s1 of
             ((success, msg), s2) \<Rightarrow>
               if \<not> success
               then (Inl (Exn Exception [Lit ''click at ('', Arg (PInt final_x), Lit '', '',
                                         Arg (PInt final_y), Lit '') failed: '', Arg (opt_str msg)]),
                     s2)
               else (Inr (), s2)))"

text \<open>The branch of \<^verbatim>\<open>_handle_click\<close> that looks for a text by OCR.\<close>

definition click_by_text ::
  "'w ext \<Rightarrow> settings \<Rightarrow> task \<Rightarrow> image \<Rightarrow> string \<Rightarrow> 'w engine \<Rightarrow> (exn + unit) \<times> 'w engine" where
  "click_by_text X E t source_img txt s =
     (let s1 = log (Some t) [Lit ''looking for text by OCR: '', Arg (PStr txt)] s;
          lg = (case lang t of None \<Rightarrow> ocr_language E | Some l \<Rightarrow> l)
      in
      case find_text_location X source_img txt lg (world s1) of
        ((click_pos, recognized_text), w') \<Rightarrow>
          if click_pos = None
          then
            (Inl (Exn Exception
                   ([Lit ''target text not found: '', Arg (PStr txt), Lit ''. '']
                    @ (if recognized_text \<noteq> []
                       then [Lit ''recognised: '', Arg (PStr recognized_text)]
                       else [Lit ''no text recognised.'']))),
             s1\<lparr>world := w'\<rparr>)
          else click_at X t click_pos (s1\<lparr>world := w'\<rparr>))"

text \<open>The branch of \<^verbatim>\<open>_handle_click\<close> that looks for an image by template matching.\<close>

definition click_by_image ::
  "'w ext \<Rightarrow> task \<Rightarrow> image \<Rightarrow> string \<Rightarrow> 'w engine \<Rightarrow> (exn + unit) \<times> 'w engine" where
  "click_by_image X t source_img target_image_path s =
     (let s1 = log (Some t) [Lit ''looking for image by template matching: '',
                             Arg (PStr target_image_path)] s
      in
      case load X target_image_path s1 of
        (None, s2) \<Rightarrow>
          (Inl (Exn Exception [Lit ''loading the target image failed: '',
                               Arg (PStr target_image_path)]), s2)
      | (Some template_img, s2) \<Rightarrow>
          (let original_threshold = threshold s2;
               current_threshold =
                 (case task_threshold t of None \<Rightarrow> original_threshold | Some v \<Rightarrow> v);
               s3 = s2\<lparr>threshold := current_threshold\<rparr>
           in
           case match_template X source_img template_img s3 of
             (click_pos, s4) \<Rightarrow>
               (let s5 = s4\<lparr>threshold := original_threshold\<rparr> in
                if click_pos = None
                then
                  (Inl (Exn Exception
                         [Lit ''target image not found: '', Arg (PStr target_image_path),
                          Lit '' (confidence: '',
                          Arg (PFloat (Finite current_threshold)), Lit '')'']), s5)
                else click_at X t click_pos s5)))"

text \<open>The first branch of \<^verbatim>\<open>_handle_click\<close>: a tap at the given position, no screenshot.\<close>

definition click_position ::
  "'w ext \<Rightarrow> task \<Rightarrow> int \<Rightarrow> int \<Rightarrow> 'w engine \<Rightarrow> (exn + unit) \<times> 'w engine" where
  "click_position X t px py s =
     (let s1 = log (Some t) [Lit ''click at: ('', Arg (PInt px), Lit '', '', Arg (PInt py),
                             Lit '')''] s
      in
      case tap X px py s1 of
        ((success, msg), s2) \<Rightarrow>
          if \<not> success
          then (Inl (Exn Exception [Lit ''click ('', Arg (PInt px), Lit '', '', Arg (PInt py),
                                    Lit '') failed: '', Arg (opt_str msg)]), s2)
          else (Inr (), s2))"

definition handle_click ::
  "'w ext \<Rightarrow> settings \<Rightarrow> task \<Rightarrow> 'w engine \<Rightarrow> (exn + unit) \<times> 'w engine" where
  "handle_click X E t s =
     (if task_x t \<noteq> None \<and> task_y t \<noteq> None \<and> falsy_str (target_text t) \<and> falsy_str (target t)
      then click_position X t (the (task_x t)) (the (task_y t)) s
      else
        let s1 = log (Some t) [Lit ''recognition needed, taking a screenshot...''] s;
            temp_screenshot_path = path_join X (base_dir E) ''temp_screen_click.png''
        in
        case screenshot X temp_screenshot_path s1 of
          ((success, msg), s2) \<Rightarrow>
            if \<not> success
            then (Inl (Exn Exception [Lit ''screenshot for recognition failed: '',
                                      Arg (opt_str msg)]), s2)
            else
              (case load X temp_screenshot_path s2 of
                 (None, s3) \<Rightarrow>
                   (Inl (Exn Exception [Lit ''loading the screenshot for recognition failed'']), s3)
               | (Some source_img, s3) \<Rightarrow>
                   if \<not> falsy_str (target_text t)
                   then click_by_text X E t source_img (the (target_text t)) s3
                   else if \<not> falsy_str (target t)
                   then click_by_image X t source_img (the (target t)) s3
                   else if task_x t \<noteq> None \<and> task_y t \<noteq> None
                   then click_at X t (Some (the (task_x t), the (task_y t))) s3
                   else click_at X t None s3))"

text \<open>
  One pass of the \<^verbatim>\<open>for\<close> loop of \<^verbatim>\<open>_handle_find_and_click_one\<close>: \<open>None\<close> when
  the loop goes on to the next target, the way the handler ends otherwise.
\<close>

definition try_target ::
  "'w ext \<Rightarrow> task \<Rightarrow> image \<Rightarrow> string \<Rightarrow> 'w engine \<Rightarrow> (exn + unit) option \<times> 'w engine" where
  "try_target X t source_img target_path s =
     (let s1 = log (Some t) [Lit ''trying to match image: '', Arg (PStr target_path)] s in
      case load X target_path s1 of
        (None, s2) \<Rightarrow>
          (None, log (Some t) [Lit ''warning: loading the target image failed, skipped: '',
                               Arg (PStr target_path)] s2)
      | (Some template_img, s2) \<Rightarrow>
          (case match_template X source_img template_img s2 of
             (None, s3) \<Rightarrow> (None, s3)
           | (Some (final_x, final_y), s3) \<Rightarrow>
               (let s4 = log (Some t) [Lit ''found image '', Arg (PStr target_path), Lit '' at: ('',
                                       Arg (PInt final_x), Lit '', '', Arg (PInt final_y), Lit '').''] s3
                in
                if judge_only t
                then (Some (Inr ()), log (Some t) [Lit ''judge-only mode, the click is skipped.''] s4)
                else
                  (case tap X final_x final_y (log (Some t) [Lit ''clicking...''] s4) of
                     ((success, msg), s5) \<Rightarrow>
                       if \<not> success
                       then (Some (Inl (Exn Exception [Lit ''clicking target '', Arg (PStr target_path),
                                                       Lit '' failed: '', Arg (opt_str msg)])), s5)
                       else (Some (Inr ()), s5)))))"

text \<open>The loop over the targets, and the \<^verbatim>\<open>raise\<close> that follows it.\<close>

fun find_one_loop ::
  "'w ext \<Rightarrow> task \<Rightarrow> image \<Rightarrow> rat \<Rightarrow> string list \<Rightarrow> 'w engine \<Rightarrow> (exn + unit) \<times> 'w engine" where
  "find_one_loop X t source_img current_threshold [] s =
     (Inl (Exn Exception [Lit ''none of the target images found on screen (confidence: '',
                          Arg (PFloat (Finite current_threshold)), Lit '').'']), s)"
| "find_one_loop X t source_img current_threshold (target_path # paths) s =
     (case try_target X t source_img target_path s of
        (None, s') \<Rightarrow> find_one_loop X t source_img current_threshold paths s'
      | (Some r, s') \<Rightarrow> (r, s'))"

text \<open>
  \<^verbatim>\<open>_handle_find_and_click_one\<close>. The \<^verbatim>\<open>finally\<close> clause runs on every way out of
  the \<^verbatim>\<open>try\<close>: it is applied to the state the loop ends in, whatever its result.
\<close>

definition handle_find_and_click_one ::
  "'w ext \<Rightarrow> settings \<Rightarrow> task \<Rightarrow> 'w engine \<Rightarrow> (exn + unit) \<times> 'w engine" where
  "handle_find_and_click_one X E t s =
     (case targets t of
        None \<Rightarrow> (Inl (Exn Exception [Lit ''find_and_click_one needs a list parameter targets.'']), s)
      | Some target_image_paths \<Rightarrow>
          if target_image_paths = []
          then (Inl (Exn Exception [Lit ''find_and_click_one needs a list parameter targets.'']), s)
          else
            let s1 = log (Some t) [Lit ''starting find_and_click_one, taking a screenshot...''] s;
                temp_screenshot_path = path_join X (base_dir E) ''temp_screen_find_one.png''
            in
            case screenshot X temp_screenshot_path s1 of
              ((success, msg), s2) \<Rightarrow>
                if \<not> success
                then (Inl (Exn Exception [Lit ''screenshot for find_and_click_one failed: '',
                                          Arg (opt_str msg)]), s2)
                else
                  (case load X temp_screenshot_path s2 of
                     (None, s3) \<Rightarrow>
                       (Inl (Exn Exception [Lit ''loading the screenshot for find_and_click_one failed.'']),
                        s3)
                   | (Some source_img, s3) \<Rightarrow>
                       (let original_threshold = threshold s3;
                            current_threshold =
                              (case task_threshold t of None \<Rightarrow> original_threshold | Some v \<Rightarrow> v);
                            s4 = s3\<lparr>threshold := current_threshold\<rparr>
                        in
                        case find_one_loop X t source_img current_threshold target_image_paths s4 of
                          (r, s5) \<Rightarrow> (r, s5\<lparr>threshold := original_threshold\<rparr>))))"

definition handle_ocr ::
  "'w ext \<Rightarrow> settings \<Rightarrow> task \<Rightarrow> 'w engine \<Rightarrow> (exn + unit) \<times> 'w engine" where
  "handle_ocr X E t s =
     (if falsy_str (variable_name t)
      then (Inl (Exn Exception [Lit ''OCR task lacks the variable_name parameter'']), s)
      else
        let var = the (variable_name t);
            temp_screenshot_path = path_join X (base_dir E) ''temp_screen_ocr.png''
        in
        case screenshot X temp_screenshot_path s of
          ((success, msg), s1) \<Rightarrow>
            if \<not> success
            then (Inl (Exn Exception [Lit ''OCR screenshot failed: '', Arg (opt_str msg)]), s1)
            else
              (case load X temp_screenshot_path s1 of
                 (None, s2) \<Rightarrow> (Inl (Exn Exception [Lit ''OCR loading the screenshot failed'']), s2)
               | (Some source_img, s2) \<Rightarrow>
                   (let lg = (case lang t of None \<Rightarrow> ocr_language E | Some l \<Rightarrow> l) in
                    case extract_text X source_img lg (world s2) of
                      (extracted, w') \<Rightarrow>
                        (let s3 = s2\<lparr>world := w'\<rparr>;
                             s4 = (case extracted of
                                     None \<Rightarrow> log (Some t) [Lit ''OCR recognised no text (language: '',
                                                            Arg (PStr lg), Lit '')''] s3
                                   | Some txt \<Rightarrow> s3);
                             extracted_text = (case extracted of None \<Rightarrow> [] | Some txt \<Rightarrow> txt);
                             s5 = set_variable var (PStr (strip extracted_text)) s4
                         in
                         (Inr (),
                          log (Some t) [Lit ''OCR result stored in variable '', Arg (PStr var),
                                        Lit '': '',
                                        Arg (case variables s5 var of None \<Rightarrow> PStr [] | Some v \<Rightarrow> v)]
                            s5)))))"

definition handle_wait :: "'w ext \<Rightarrow> task \<Rightarrow> 'w engine \<Rightarrow> (exn + unit) \<times> 'w engine" where
  "handle_wait X t s = sleep X (case duration t of None \<Rightarrow> 1 | Some d \<Rightarrow> d) s"

definition handle_swipe :: "'w ext \<Rightarrow> task \<Rightarrow> 'w engine \<Rightarrow> (exn + unit) \<times> 'w engine" where
  "handle_swipe X t s =
     (case task_x1 t of None \<Rightarrow> (Inl (key_error ''x1''), s) | Some px1 \<Rightarrow>
      case task_y1 t of None \<Rightarrow> (Inl (key_error ''y1''), s) | Some py1 \<Rightarrow>
      case task_x2 t of None \<Rightarrow> (Inl (key_error ''x2''), s) | Some px2 \<Rightarrow>
      case task_y2 t of None \<Rightarrow> (Inl (key_error ''y2''), s) | Some py2 \<Rightarrow>
        (let d = (case duration t of None \<Rightarrow> 300 | Some v \<Rightarrow> v) in
         case adb_swipe X px1 py1 px2 py2 d (world s) of
           ((success, msg), w') \<Rightarrow>
             if \<not> success
             then (Inl (Exn Exception [Lit ''swipe failed: '', Arg (opt_str msg)]), s\<lparr>world := w'\<rparr>)
             else (Inr (), s\<lparr>world := w'\<rparr>)))"

definition handle_set_variable :: "'w ext \<Rightarrow> task \<Rightarrow> 'w engine \<Rightarrow> (exn + unit) \<times> 'w engine" where
  "handle_set_variable X t s =
     (case task_name t of None \<Rightarrow> (Inl (key_error ''name''), s) | Some n \<Rightarrow>
      case task_value t of None \<Rightarrow> (Inl (key_error ''value''), s) | Some raw \<Rightarrow>
        (let v = parse_value X raw s;
             s1 = (if print_log t then s\<lparr>watched_variables := insert n (watched_variables s)\<rparr> else s);
             s2 = log (Some t) [Lit ''set_variable: variable '', Arg (PStr n), Lit '' is assigned '',
                                Arg v] s1
         in (Inr (), set_variable n v s2)))"

text \<open>\<^verbatim>\<open>_handle_task_success\<close>.\<close>

definition handle_task_success :: "'w ext \<Rightarrow> task \<Rightarrow> 'w engine \<Rightarrow> 'w engine" where
  "handle_task_success X t s =
     (if enable_timer t then
        let task_desc = (case description t of None \<Rightarrow> ''unnamed task'' | Some d \<Rightarrow> d);
            s1 = s\<lparr>success_counts :=
                     (success_counts s)(task_desc \<mapsto>
                        (case success_counts s task_desc of None \<Rightarrow> 0 | Some c \<Rightarrow> c) + 1)\<rparr>;
            now = time_now X (world s1);
            s2 = (case last_success_time s1 of
                    Some prev \<Rightarrow>
                      print_line [Lit ''timer: task '', Arg (PStr task_desc),
                                  Lit '' after the previous success: '', Arg (PInt (now - prev))] s1
                  | None \<Rightarrow>
                      print_line [Lit ''timer: task '', Arg (PStr task_desc), Lit '' timer started.''] s1)
        in s2\<lparr>last_success_time := Some now\<rparr>
      else s)"

section \<open>The task executor\<close>

text \<open>
  The chain of \<^verbatim>\<open>if\<close>/\<^verbatim>\<open>elif\<close> on the task type in \<^verbatim>\<open>_execute_task\<close>. Reaching it
  counts as one invocation of the action.
\<close>

definition dispatch :: "'w ext \<Rightarrow> settings \<Rightarrow> task \<Rightarrow> 'w engine \<Rightarrow> (exn + unit) \<times> 'w engine" where
  "dispatch X E t s =
     (let s0 = s\<lparr>invocations := Suc (invocations s)\<rparr>; task_type = ttype t in
      if task_type = Some ''screenshot'' then handle_screenshot X t s0
      else if task_type = Some ''click'' then handle_click X E t s0
      else if task_type = Some ''long_press'' then handle_long_press X t s0
      else if task_type = Some ''wait'' then handle_wait X t s0
      else if task_type = Some ''set_variable'' then handle_set_variable X t s0
      else if task_type = Some ''swipe'' then handle_swipe X t s0
      else if task_type = Some ''ocr'' then handle_ocr X E t s0
      else if task_type = Some ''find_and_click_one'' then handle_find_and_click_one X E t s0
      else if task_type = Some ''restart_app'' then handle_restart_app X t s0
      else if task_type \<noteq> Some ''LOOP'' \<and> task_type \<noteq> Some ''END_LOOP''
      then (Inr (), log (Some t) [Lit ''unknown task type: '', Arg (opt_str task_type)] s0)
      else (Inr (), s0))"

definition timeout_error :: "time \<Rightarrow> exn" where
  "timeout_error tm = Exn TimeoutError [Lit ''task timed out ('', Arg (PInt tm), Lit '' seconds)'']"

text \<open>The body of the \<^verbatim>\<open>try\<close> of one attempt.\<close>

definition attempt_body ::
  "'w ext \<Rightarrow> settings \<Rightarrow> task \<Rightarrow> time option \<Rightarrow> time \<Rightarrow> 'w engine \<Rightarrow> (exn + unit) \<times> 'w engine" where
  "attempt_body X E t tmo start_time s =
     (case (case tmo of
              None \<Rightarrow> None
            | Some tm \<Rightarrow> if time_now X (world s) - start_time > tm then Some tm else None) of
        Some tm \<Rightarrow> (Inl (timeout_error tm), s)
      | None \<Rightarrow>
          (case dispatch X E t s of
             (Inl e, s1) \<Rightarrow> (Inl e, s1)
           | (Inr u, s1) \<Rightarrow>
               (case post_action t of
                  None \<Rightarrow> (Inr (), handle_task_success X t s1)
                | Some action \<Rightarrow>
                    (case execute_action X action s1 of
                       (Inl e, s2) \<Rightarrow>
                         (Inl (Exn Exception ([Lit ''post action failed: ''] @ str_exn e)), s2)
                     | (Inr u', s2) \<Rightarrow> (Inr (), handle_task_success X t s2)))))"

definition task_failed :: "int \<Rightarrow> exn \<Rightarrow> message" where
  "task_failed n last_error =
     [Lit ''task failed (after '', Arg (PInt n), Lit '' retries): ''] @ str_exn last_error"

definition fail_action_failed :: "exn \<Rightarrow> message" where
  "fail_action_failed action_e =
     [Lit [CHR 0x0A], Lit ''and the on-fail action failed too: ''] @ str_exn action_e"

definition fail_action_notice :: "string \<Rightarrow> message" where
  "fail_action_notice action =
     [Lit ''task failed, running the on-fail action: '', Arg (PStr action)]"

text \<open>
  The \<^verbatim>\<open>except\<close> clause of one attempt and the \<^verbatim>\<open>time.sleep\<close> after it: \<open>Inl\<close>
  is the exception that leaves \<^verbatim>\<open>_execute_task\<close>, \<open>Inr\<close> goes on with the next attempt.
\<close>

definition on_failure ::
  "'w ext \<Rightarrow> settings \<Rightarrow> task \<Rightarrow> int \<Rightarrow> exn \<Rightarrow> 'w engine \<Rightarrow> (exn + unit) \<times> 'w engine" where
  "on_failure X E t attempt last_error s =
     (let n = (case retries t of None \<Rightarrow> max_retries E | Some r \<Rightarrow> r) in
      if \<not> wait_for_success t then
        if attempt \<ge> n then
          (case on_fail_action t of
             Some action \<Rightarrow>
               (case execute_action X action (log (Some t) (fail_action_notice action) s) of
                  (Inl action_e, s1) \<Rightarrow>
                    (Inl (Exn Exception (task_failed n last_error @ fail_action_failed action_e)), s1)
                | (Inr u, s1) \<Rightarrow> (Inl (Exn Exception (task_failed n last_error)), s1))
           | None \<Rightarrow> (Inl (Exn Exception (task_failed n last_error)), s))
        else
          sleep X (retry_delay E)
            (log (Some t) ([Lit ''task failed, retries left: '', Arg (PInt (n - attempt)),
                            Lit '', error: ''] @ str_exn last_error) s)
      else
        sleep X (retry_delay E)
          (log (Some t) ([Lit ''blocking task failed, retrying in '', Arg (PInt (retry_delay E)),
                          Lit '' seconds... error: ''] @ str_exn last_error) s))"

text \<open>
  The \<^verbatim>\<open>while True\<close> loop of \<^verbatim>\<open>_execute_task\<close>. It need not end, so the model counts
  the attempts it may still make: the result \<open>None\<close> says that the loop is still
  running when the count is used up. \<open>attempt\<close> is the number of attempts made so far.
\<close>

fun attempt_loop ::
  "'w ext \<Rightarrow> settings \<Rightarrow> task \<Rightarrow> time option \<Rightarrow> time \<Rightarrow> nat \<Rightarrow> int \<Rightarrow> 'w engine
   \<Rightarrow> (exn + unit) option \<times> 'w engine" where
  "attempt_loop X E t tmo start_time 0 attempt s = (None, s)"
| "attempt_loop X E t tmo start_time (Suc fuel) attempt s =
     (if \<not> is_running s
      then (Some (Inr ()), log (Some t) [Lit ''task stopped by the user.''] s)
      else
        (case attempt_body X E t tmo start_time s of
           (Inr u, s1) \<Rightarrow> (Some (Inr ()), s1)
         | (Inl e, s1) \<Rightarrow>
             (case on_failure X E t (attempt + 1) e s1 of
                (Inl e', s2) \<Rightarrow> (Some (Inl e'), s2)
              | (Inr u, s2) \<Rightarrow> attempt_loop X E t tmo start_time fuel (attempt + 1) s2)))"

text \<open>\<^verbatim>\<open>_execute_task\<close> after its pre-condition: the timeout, the start time, the loop.\<close>

definition effective_timeout :: "settings \<Rightarrow> task \<Rightarrow> time option" where
  "effective_timeout E t =
     (if wait_for_success t then timeout t
      else Some (case timeout t of None \<Rightarrow> default_timeout E | Some v \<Rightarrow> v))"

definition execute_attempts ::
  "'w ext \<Rightarrow> settings \<Rightarrow> nat \<Rightarrow> task \<Rightarrow> 'w engine \<Rightarrow> (exn + unit) option \<times> 'w engine" where
  "execute_attempts X E fuel t s =
     (let tmo = effective_timeout E t;
          start_time = time_now X (world s)
      in attempt_loop X E t tmo start_time fuel 0 s)"

definition execute_task ::
  "'w ext \<Rightarrow> settings \<Rightarrow> nat \<Rightarrow> task \<Rightarrow> 'w engine \<Rightarrow> (exn + unit) option \<times> 'w engine" where
  "execute_task X E fuel t s =
     (case pre_condition t of
        None \<Rightarrow> execute_attempts X E fuel t s
      | Some cond \<Rightarrow>
          (case evaluate_expression X cond s of
             (Inl e, s1) \<Rightarrow>
               (Some (Inl (Exn Exception ([Lit ''evaluating the pre-condition failed: '']
                                          @ str_exn e))), s1)
           | (Inr holds, s1) \<Rightarrow>
               if \<not> holds
               then (Some (Inr ()),
                     log (Some t) [Lit ''task '', Arg (opt_str (description t)),
                                   Lit '' skipped, its pre-condition does not hold.''] s1)
               else execute_attempts X E fuel t s1))"

section \<open>The execution loop\<close>

text \<open>
  The handling of \<^verbatim>\<open>LOOP\<close> and \<^verbatim>\<open>END_LOOP\<close> at index \<open>i\<close>: \<open>Some j\<close> when the loop
  of \<^verbatim>\<open>run\<close> continues at index \<open>j\<close>, \<open>None\<close> when the task goes to the task executor.
  A key missing from the jump map raises \<^verbatim>\<open>KeyError\<close>.
\<close>

definition jump :: "(nat \<rightharpoonup> nat) \<Rightarrow> nat \<Rightarrow> 'w engine \<Rightarrow> (exn + nat option) \<times> 'w engine" where
  "jump jump_map i s =
     (case jump_map i of
        None \<Rightarrow> (Inl (Exn KeyError [Arg (PInt (int i))]), s)
      | Some j \<Rightarrow> (Inr (Some (j + 1)), s))"

definition loop_control ::
  "'w ext \<Rightarrow> (nat \<rightharpoonup> nat) \<Rightarrow> nat \<Rightarrow> task \<Rightarrow> 'w engine \<Rightarrow> (exn + nat option) \<times> 'w engine" where
  "loop_control X jump_map i t s =
     (if ttype t = Some ''LOOP'' then
        (case pre_condition t of
           None \<Rightarrow> (Inr None, s)
         | Some cond \<Rightarrow>
             (case evaluate_expression X cond s of
                (Inl e, s1) \<Rightarrow> (Inl e, s1)
              | (Inr holds, s1) \<Rightarrow> if \<not> holds then jump jump_map i s1 else (Inr None, s1)))
      else if ttype t = Some ''END_LOOP'' then
        (case pre_condition t of
           None \<Rightarrow> jump jump_map i s
         | Some cond \<Rightarrow>
             (case evaluate_expression X cond s of
                (Inl e, s1) \<Rightarrow> (Inl e, s1)
              | (Inr holds, s1) \<Rightarrow>
                  if \<not> holds then jump jump_map i s1
                  else (Inr (Some (i + 1)),
                        log (Some t) [Lit ''stop condition '', Arg (PStr cond),
                                      Lit '' holds, leaving the loop.''] s1)))
      else (Inr None, s))"

text \<open>What \<^verbatim>\<open>run\<close> does after a task: the progress callback and the delay.\<close>

definition after_task :: "'w ext \<Rightarrow> settings \<Rightarrow> nat \<Rightarrow> nat \<Rightarrow> 'w engine \<Rightarrow> 'w engine" where
  "after_task X E i total_tasks s =
     (let s1 = (case progress_callback X of
                  None \<Rightarrow> s
                | Some cb \<Rightarrow> s\<lparr>world := cb (i + 1) total_tasks (world s)\<rparr>)
      in if task_delay E > 0 then s1\<lparr>world := time_sleep X (task_delay E) (world s1)\<rparr> else s1)"

text \<open>
  The \<^verbatim>\<open>while\<close> loop of \<^verbatim>\<open>run\<close>, with a count of the iterations it may still make
  (the same count bounds the attempts of each task).
\<close>

fun run_loop ::
  "'w ext \<Rightarrow> settings \<Rightarrow> (nat \<rightharpoonup> nat) \<Rightarrow> task list \<Rightarrow> nat \<Rightarrow> nat \<Rightarrow> 'w engine
   \<Rightarrow> (exn + unit) option \<times> 'w engine" where
  "run_loop X E jump_map task_queue 0 i s = (None, s)"
| "run_loop X E jump_map task_queue (Suc fuel) i s =
     (if \<not> (i < length task_queue \<and> is_running s) then (Some (Inr ()), s)
      else
        (case is_running_callable X (world s) of
           (go, w') \<Rightarrow>
             if \<not> go then (Some (Inr ()), s\<lparr>world := w'\<rparr>)
             else
               (let t = task_queue ! i; s1 = s\<lparr>current_task := Some t, world := w'\<rparr> in
                case loop_control X jump_map i t s1 of
                  (Inl e, s2) \<Rightarrow> (Some (Inl e), s2)
                | (Inr (Some j), s2) \<Rightarrow> run_loop X E jump_map task_queue fuel j s2
                | (Inr None, s2) \<Rightarrow>
                    (case execute_task X E fuel t s2 of
                       (None, s3) \<Rightarrow> (None, s3)
                     | (Some (Inr u), s3) \<Rightarrow>
                         run_loop X E jump_map task_queue fuel (i + 1)
                           (after_task X E i (length task_queue) s3)
                     | (Some (Inl e), s3) \<Rightarrow>
                         if continue_on_fail t
                         then run_loop X E jump_map task_queue fuel (i + 1)
                                (after_task X E i (length task_queue)
                                   (log (Some t) ([Lit ''task '', Arg (opt_str (description t)),
                                                   Lit '' failed, but is set to continue. error: '']
                                                  @ str_exn e) s3))
                         else (Some (Inl e), s3)))))"

text \<open>\<^verbatim>\<open>run\<close> on the task queue that \<^verbatim>\<open>load_tasks\<close> has stored.\<close>

definition run ::
  "'w ext \<Rightarrow> settings \<Rightarrow> nat \<Rightarrow> task list \<Rightarrow> 'w engine \<Rightarrow> (exn + unit) option \<times> 'w engine" where
  "run X E fuel task_queue s =
     (let s1 = s\<lparr>is_running := True, last_success_time := None,
                 run_start_time := Some (time_now X (world s)), success_counts := Map.empty\<rparr>
      in
      case (if falsy_str (device_id E) then (True, world s1)
            else adb_connect_device X (the (device_id E)) (world s1)) of
        (conn_ok, w') \<Rightarrow>
          if \<not> conn_ok
          then (Some (Inl (Exn Exception [Lit ''cannot connect to device: '',
                                          Arg (opt_str (device_id E))])), s1\<lparr>world := w'\<rparr>)
          else
            (case build_jump_map task_queue of
               Inl e \<Rightarrow>
                 (Some (Inl (Exn Exception ([Lit ''task structure error: ''] @ str_exn e))),
                  s1\<lparr>world := w'\<rparr>)
             | Inr jump_map \<Rightarrow>
                 (case run_loop X E jump_map task_queue fuel 0 (s1\<lparr>world := w'\<rparr>) of
                    (Some (Inr u), s2) \<Rightarrow>
                      (Some (Inr ()),
                       if \<not> is_running s2 then log None [Lit ''tasks stopped by the user''] s2 else s2)
                  | other \<Rightarrow> other)))"

definition stop :: "'w engine \<Rightarrow> 'w engine" where
  "stop s = s\<lparr>is_running := False\<rparr>"

section \<open>An instance of the collaborators\<close>

text \<open>
  The theorems below hold for every instance of the collaborators. To apply them to
  concrete runs, this section gives one instance: an evaluator for a fragment of
  Python's expressions (an operand, or two operands around one operator, where an operand
  is a decimal numeral or a name bound to an integer), which answers
  \<^verbatim>\<open>SyntaxError\<close> outside the fragment; a clock that \<^verbatim>\<open>time.sleep\<close> advances; a
  device whose commands succeed; a vision backend that loads every file but
  \<^verbatim>\<open>missing.png\<close> and finds exactly the templates whose path has five characters.
\<close>

datatype token = TNum int | TName string | TOp string | TBad

definition is_digit :: "char \<Rightarrow> bool" where
  "is_digit c = (let n = (of_char c :: nat) in 48 \<le> n \<and> n \<le> 57)"

definition is_name_char :: "char \<Rightarrow> bool" where
  "is_name_char c = (let n = (of_char c :: nat) in (65 \<le> n \<and> n \<le> 90) \<or> (97 \<le> n \<and> n \<le> 122) \<or> n = 95)"

definition is_op_char :: "char \<Rightarrow> bool" where
  "is_op_char c = (c \<in> set ''<>=!+-*'')"

fun flush :: "token option \<Rightarrow> token list" where
  "flush None = []"
| "flush (Some tk) = [tk]"

fun lex :: "token option \<Rightarrow> string \<Rightarrow> token list" where
  "lex cur [] = flush cur"
| "lex cur (c # cs) =
     (if is_digit c then
        (case cur of
           Some (TNum n) \<Rightarrow> lex (Some (TNum (10 * n + (int (of_char c) - 48)))) cs
         | Some (TName nm) \<Rightarrow> lex (Some (TName (nm @ [c]))) cs
         | _ \<Rightarrow> flush cur @ lex (Some (TNum (int (of_char c) - 48))) cs)
      else if is_name_char c then
        (case cur of
           Some (TName nm) \<Rightarrow> lex (Some (TName (nm @ [c]))) cs
         | Some (TNum n) \<Rightarrow> [TBad]
         | _ \<Rightarrow> flush cur @ lex (Some (TName [c])) cs)
      else if is_op_char c then
        (case cur of
           Some (TOp ob) \<Rightarrow> lex (Some (TOp (ob @ [c]))) cs
         | _ \<Rightarrow> flush cur @ lex (Some (TOp [c])) cs)
      else if c = CHR '' '' then flush cur @ lex None cs
      else [TBad])"

definition syntax_error :: exn where
  "syntax_error = Exn SyntaxError [Lit ''invalid syntax'']"

fun operand :: "token \<Rightarrow> (string \<rightharpoonup> pyval) \<Rightarrow> exn + pyval" where
  "operand (TNum n) scope = Inr (PInt n)"
| "operand (TName nm) scope =
     (case scope nm of
        None \<Rightarrow> Inl (Exn NameError [Lit ''name '', Arg (PStr nm), Lit '' is not defined''])
      | Some v \<Rightarrow> Inr v)"
| "operand tk scope = Inl syntax_error"

definition binop :: "string \<Rightarrow> int \<Rightarrow> int \<Rightarrow> exn + pyval" where
  "binop ob a b =
     (if ob = ''<'' then Inr (PBool (a < b))
      else if ob = ''<='' then Inr (PBool (a \<le> b))
      else if ob = ''>'' then Inr (PBool (a > b))
      else if ob = ''>='' then Inr (PBool (a \<ge> b))
      else if ob = ''=='' then Inr (PBool (a = b))
      else if ob = ''!='' then Inr (PBool (a \<noteq> b))
      else if ob = ''+'' then Inr (PInt (a + b))
      else if ob = ''-'' then Inr (PInt (a - b))
      else if ob = ''*'' then Inr (PInt (a * b))
      else Inl syntax_error)"

fun eval_tokens :: "token list \<Rightarrow> (string \<rightharpoonup> pyval) \<Rightarrow> exn + pyval" where
  "eval_tokens [a] scope = operand a scope"
| "eval_tokens [a, TOp ob, b] scope =
     (case (operand a scope, operand b scope) of
        (Inl e, r) \<Rightarrow> Inl e
      | (Inr va, Inl e) \<Rightarrow> Inl e
      | (Inr (PInt i), Inr (PInt j)) \<Rightarrow> binop ob i j
      | (Inr va, Inr vb) \<Rightarrow> Inl (Exn TypeError [Lit ''unsupported operand types'']))"
| "eval_tokens tks scope = Inl syntax_error"

definition eval_fragment ::
  "string \<Rightarrow> (string \<rightharpoonup> pyval) \<Rightarrow> (exn + pyval) \<times> (string \<rightharpoonup> pyval)" where
  "eval_fragment src scope = (eval_tokens (lex None src) scope, scope)"

definition int_fragment :: "string \<Rightarrow> int option" where
  "int_fragment str =
     (if str \<noteq> [] \<and> list_all is_digit str
      then Some (foldl (\<lambda>a c. 10 * a + (int (of_char c) - 48)) 0 str)
      else None)"

definition identifier_fragment :: "string \<Rightarrow> bool" where
  "identifier_fragment str =
     (case str of
        [] \<Rightarrow> False
      | c # cs \<Rightarrow> is_name_char c \<and> list_all (\<lambda>d. is_name_char d \<or> is_digit d) cs)"

definition example_ext :: "time ext" where
  "example_ext =
     \<lparr>py_eval = eval_fragment,
      py_int = int_fragment,
      py_float = (\<lambda>str. None),
      isidentifier = identifier_fragment,
      path_join = (\<lambda>dir file. dir @ ''/'' @ file),
      time_now = (\<lambda>w. w),
      time_sleep = (\<lambda>d w. w + d),
      adb_connect_device = (\<lambda>dev w. (True, w)),
      adb_screenshot = (\<lambda>path w. ((True, None), w)),
      adb_tap = (\<lambda>px py w. ((True, Some []), w)),
      adb_swipe = (\<lambda>px1 py1 px2 py2 d w. ((True, Some []), w)),
      adb_long_press = (\<lambda>px py d w. ((True, Some []), w)),
      adb_restart_app = (\<lambda>pkg w. ((True, None), w)),
      load_image = (\<lambda>path w. (if path = ''missing.png'' then None else Some (Image (length path)), w)),
      find_template = (\<lambda>source_img template_img thr w.
                         (if template_img = Image 5 then Some (100, 200) else None, w)),
      extract_text = (\<lambda>img lg w. (None, w)),
      find_text_location = (\<lambda>img txt lg w. ((None, []), w)),
      is_running_callable = (\<lambda>w. (True, w)),
      progress_callback = None\<rparr>"

definition example_settings :: settings where
  "example_settings =
     \<lparr>device_id = None, ocr_language = ''chi_sim+eng'', max_retries = 3, retry_delay = 1,
      default_timeout = 30, task_delay = 0, base_dir = ''.''\<rparr>"

text \<open>A task with no key but its type, and an engine as \<^verbatim>\<open>__init__\<close> leaves it,
  running, at clock 0.\<close>

definition plain_task :: "string \<Rightarrow> task" where
  "plain_task ty =
     \<lparr>ttype = Some ty, description = None, pre_condition = None, post_action = None,
      on_fail_action = None, wait_for_success = False, retries = None, timeout = None,
      continue_on_fail = False, print_log = False, enable_timer = False, save_path = None,
      task_x = None, task_y = None, task_x1 = None, task_y1 = None, task_x2 = None,
      task_y2 = None, duration = None, package_name = None, target_text = None,
      target = None, targets = None, lang = None, task_threshold = None, judge_only = False,
      variable_name = None, task_name = None, task_value = None\<rparr>"

definition example_engine :: "time engine" where
  "example_engine =
     \<lparr>variables = Map.empty, watched_variables = {}, current_task = None, is_running = True,
      last_success_time = None, run_start_time = None, success_counts = Map.empty,
      threshold = 4 / 5, printed = [], taps = [], invocations = 0, world = 0\<rparr>"


section \<open>Notions used in the statements\<close>


text \<open>A string of whitespace and semicolons only.\<close>

definition blank :: "string \<Rightarrow> bool" where
  "blank str = (\<forall>c \<in> set str. is_space c \<or> c = CHR '';'')"

text \<open>A task with a pre-condition of whitespace and a semicolon.\<close>

definition blank_task :: task where
  "blank_task = (plain_task ''wait'')\<lparr>pre_condition := Some '' ; ''\<rparr>"

text \<open>
  A task sequence is well nested when, read from left to right, no \<^verbatim>\<open>END_LOOP\<close> comes
  without an open \<^verbatim>\<open>LOOP\<close> before it and no \<^verbatim>\<open>LOOP\<close> stays open at the end;
  \<open>depth\<close> is the number of loops that are open.
\<close>

definition is_loop_task :: "task \<Rightarrow> bool" where
  "is_loop_task t = (ttype t = Some ''LOOP'' \<or> ttype t = Some ''END_LOOP'')"

fun balanced :: "nat \<Rightarrow> task list \<Rightarrow> bool" where
  "balanced depth [] = (depth = 0)"
| "balanced depth (t # ts) =
     (if ttype t = Some ''LOOP'' then balanced (Suc depth) ts
      else if ttype t = Some ''END_LOOP'' then
        (case depth of 0 \<Rightarrow> False | Suc d \<Rightarrow> balanced d ts)
      else balanced depth ts)"

definition well_nested :: "task list \<Rightarrow> bool" where
  "well_nested ts = balanced 0 ts"

text \<open>The invariant of the jump map: a map that is its own inverse, over indices below
  the next one, none of which is still on the stack.\<close>

definition involutive :: "(nat \<rightharpoonup> nat) \<Rightarrow> bool" where
  "involutive jm = (\<forall>k v. jm k = Some v \<longrightarrow> jm v = Some k)"

definition below :: "nat \<Rightarrow> nat list \<Rightarrow> (nat \<rightharpoonup> nat) \<Rightarrow> bool" where
  "below i stack jm =
     ((\<forall>k \<in> dom jm. k < i) \<and> (\<forall>k \<in> set stack. k < i) \<and> set stack \<inter> dom jm = {})"

text \<open>The two fields of the engine that no handler changes.\<close>

definition control :: "'w engine \<Rightarrow> bool \<times> nat" where
  "control s = (is_running s, invocations s)"





text \<open>
  The counting loop: a \<^verbatim>\<open>LOOP\<close> entered while \<^verbatim>\<open>i<3\<close>, a body that sets a variable
  and then adds one to \<^verbatim>\<open>i\<close> in its post-action, an \<^verbatim>\<open>END_LOOP\<close> left when
  \<^verbatim>\<open>i>=3\<close>.
\<close>

definition loop_task :: task where
  "loop_task = (plain_task ''LOOP'')\<lparr>pre_condition := Some ''i<3''\<rparr>"

definition body_task :: task where
  "body_task =
     (plain_task ''set_variable'')\<lparr>task_name := Some ''step'', task_value := Some (PInt 1),
                                   post_action := Some ''i = i + 1''\<rparr>"

definition end_loop_task :: task where
  "end_loop_task = (plain_task ''END_LOOP'')\<lparr>pre_condition := Some ''i>=3''\<rparr>"

definition counting_loop :: "task list" where
  "counting_loop = [loop_task, body_task, end_loop_task]"


text \<open>A blocking screenshot task with a timeout of 2 and no path to save to.\<close>

definition blocking_task :: task where
  "blocking_task = (plain_task ''screenshot'')\<lparr>wait_for_success := True, timeout := Some 2\<rparr>"


section \<open>The variable store\<close>






section \<open>The expression evaluator\<close>

text \<open>
  C2. The rewriting does not leave \<^verbatim>\<open>!=\<close> untouched: \<^verbatim>\<open>!\<close> has become
  \<^verbatim>\<open>not\<close> before the regular expression looks for a bare \<^verbatim>\<open>=\<close>, so the
  \<^verbatim>\<open>=\<close> of \<^verbatim>\<open>!=\<close> follows a space and is doubled.
\<close>

theorem not_equal_operator_is_rewritten:
  "rewrite_operators ''a != 1'' = ''a  not == 1''"
  by (simp add: rewrite_operators_def)




lemma eval_conditions_true_state:
  "fst (eval_conditions X cs sc s) = Inr True \<Longrightarrow> snd (eval_conditions X cs sc s) = s"
  by (induction cs arbitrary: sc) (auto split: prod.splits sum.splits if_splits)

lemma eval_conditions_total: "\<exists>b. fst (eval_conditions X cs sc s) = Inr b"
  by (induction cs arbitrary: sc) (auto split: prod.splits sum.splits)




lemma str_replace_absent:
  "old \<noteq> [] \<Longrightarrow> hd old \<notin> set str \<Longrightarrow> str_replace old new str = str"
proof (induction str)
  case Nil
  then show ?case by simp
next
  case (Cons c cs)
  then have "\<not> prefix old (c # cs)"
    by (cases old) auto
  then show ?case using Cons by simp
qed

lemma sub_bare_eq_absent: "CHR ''='' \<notin> set str \<Longrightarrow> sub_bare_eq prev str = str"
  by (induction str arbitrary: prev) auto

lemma blank_rewrite: "blank str \<Longrightarrow> rewrite_operators str = str"
proof -
  assume b: "blank str"
  have ns: "\<not> is_space CHR ''&''" "\<not> is_space CHR ''|''" "\<not> is_space CHR ''!''"
    "\<not> is_space CHR ''=''"
    by (simp_all add: is_space_def)
  from b ns have "CHR ''&'' \<notin> set str" "CHR ''|'' \<notin> set str" "CHR ''!'' \<notin> set str"
    "CHR ''='' \<notin> set str"
    unfolding blank_def by auto
  then show ?thesis
    by (simp add: rewrite_operators_def str_replace_absent sub_bare_eq_absent)
qed

lemma strip_spaces: "\<forall>c \<in> set str. is_space c \<Longrightarrow> strip str = []"
proof -
  assume "\<forall>c \<in> set str. is_space c"
  then have d: "dropWhile is_space str = []" by simp
  show ?thesis unfolding strip_def d by simp
qed

lemma split_on_blank:
  "blank str \<Longrightarrow> \<forall>p \<in> set (split_on CHR '';'' str). \<forall>c \<in> set p. is_space c"
proof (induction str)
  case Nil
  then show ?case by simp
next
  case (Cons c cs)
  then have ih: "\<forall>p \<in> set (split_on CHR '';'' cs). \<forall>c \<in> set p. is_space c"
    by (simp add: blank_def)
  show ?case
  proof (cases "c = CHR '';''")
    case True
    then show ?thesis using ih by simp
  next
    case False
    then have sp: "is_space c" using Cons.prems by (simp add: blank_def)
    show ?thesis using False sp ih by (cases "split_on CHR '';'' cs") auto
  qed
qed

lemma eval_conditions_empty:
  "\<forall>c \<in> set cs. c = [] \<Longrightarrow> eval_conditions X cs sc s = (Inr True, s)"
  by (induction cs) auto

lemma blank_evaluates_true: "blank str \<Longrightarrow> evaluate_expression X str s = (Inr True, s)"
proof -
  assume b: "blank str"
  have "\<forall>c \<in> set (map strip (split_on CHR '';'' str)). c = []"
    using split_on_blank [OF b] by (auto simp: strip_spaces)
  then show ?thesis
    unfolding evaluate_expression_def Let_def blank_rewrite [OF b]
    by (rule eval_conditions_empty)
qed

text \<open>
  C10. A condition that is empty, or made of whitespace and semicolons only, evaluates
  to true and prints nothing; a task that has it as its pre-condition is not skipped: the
  task executor goes on to the attempts, in the state it was called in.
\<close>

theorem blank_condition_holds:
  "blank cond \<Longrightarrow>
     evaluate_expression X cond s = (Inr True, s) \<and>
     (pre_condition t = Some cond \<longrightarrow> execute_task X E fuel t s = execute_attempts X E fuel t s)"
  by (simp add: blank_evaluates_true execute_task_def)

theorem blank_condition_example:
  "blank '' ; ''
   \<and> evaluate_expression example_ext '' ; '' example_engine = (Inr True, example_engine)
   \<and> pre_condition blank_task = Some '' ; ''
   \<and> execute_task example_ext example_settings 1 blank_task example_engine
       = execute_attempts example_ext example_settings 1 blank_task example_engine"
  using blank_condition_holds [where cond = "'' ; ''" and t = blank_task and X = example_ext
      and s = example_engine and E = example_settings and fuel = 1]
  by (simp add: blank_def is_space_def blank_task_def plain_task_def)


section \<open>The jump map\<close>

lemma below_push: "below i stack jm \<Longrightarrow> below (Suc i) (i # stack) jm"
  unfolding below_def by (auto simp: less_Suc_eq)

lemma below_skip: "below i stack jm \<Longrightarrow> below (Suc i) stack jm"
  unfolding below_def by (auto simp: less_Suc_eq)

lemma below_pop:
  "below i (l # rest) jm \<Longrightarrow> l \<notin> set rest \<Longrightarrow> below (Suc i) rest (jm(l \<mapsto> i, i \<mapsto> l))"
  unfolding below_def by (auto simp: less_Suc_eq)

lemma involutive_pop:
  assumes inv: "involutive jm" and bel: "below i (l # rest) jm"
  shows "involutive (jm(l \<mapsto> i, i \<mapsto> l))"
  unfolding involutive_def
proof (intro allI impI)
  fix k v assume kv: "(jm(l \<mapsto> i, i \<mapsto> l)) k = Some v"
  have li: "l \<noteq> i" and ld: "l \<notin> dom jm" and idom: "i \<notin> dom jm"
    using bel unfolding below_def by auto
  show "(jm(l \<mapsto> i, i \<mapsto> l)) v = Some k"
  proof (cases "k = i \<or> k = l")
    case True
    then show ?thesis using kv li by auto
  next
    case False
    then have "jm k = Some v" using kv by simp
    then have vk: "jm v = Some k" using inv unfolding involutive_def by blast
    then have "v \<noteq> i" "v \<noteq> l" using idom ld by auto
    then show ?thesis using vk by simp
  qed
qed

lemma nth_Cons_cases:
  assumes "k < length (t # ts)" and "P ((t # ts) ! k)"
  shows "(k = 0 \<and> P t) \<or> (\<exists>k'. k = Suc k' \<and> k' < length ts \<and> P (ts ! k'))"
  using assms by (cases k) auto

lemma jump_map_loop_balanced:
  "balanced (length stack) ts \<Longrightarrow> involutive jm \<Longrightarrow> below i stack jm \<Longrightarrow> distinct stack \<Longrightarrow>
   \<exists>jm'. jump_map_loop i stack jm ts = Inr jm'
     \<and> involutive jm'
     \<and> dom jm \<union> set stack \<subseteq> dom jm'
     \<and> (\<forall>k < length ts. is_loop_task (ts ! k) \<longrightarrow> i + k \<in> dom jm')"
proof (induction ts arbitrary: i stack jm)
  case Nil
  then show ?case by simp
next
  case (Cons t ts)
  show ?case
  proof (cases "ttype t = Some ''LOOP''")
    case True
    have b: "balanced (length (i # stack)) ts" using Cons.prems(1) True by simp
    have d: "distinct (i # stack)" using Cons.prems(3,4) by (auto simp: below_def)
    from Cons.IH [OF b Cons.prems(2) below_push [OF Cons.prems(3)] d]
    obtain jm' where r: "jump_map_loop (Suc i) (i # stack) jm ts = Inr jm'"
      and inv: "involutive jm'"
      and sub: "dom jm \<union> set (i # stack) \<subseteq> dom jm'"
      and rest: "\<forall>k < length ts. is_loop_task (ts ! k) \<longrightarrow> Suc i + k \<in> dom jm'"
      by blast
    have eq: "jump_map_loop i stack jm (t # ts) = Inr jm'" using True r by simp
    have sub': "dom jm \<union> set stack \<subseteq> dom jm'" and ii: "i \<in> dom jm'" using sub by auto
    have all: "\<forall>k < length (t # ts). is_loop_task ((t # ts) ! k) \<longrightarrow> i + k \<in> dom jm'"
    proof (intro allI impI)
      fix k assume "k < length (t # ts)" "is_loop_task ((t # ts) ! k)"
      from nth_Cons_cases [of k t ts is_loop_task, OF this]
      show "i + k \<in> dom jm'" using ii rest by auto
    qed
    from eq inv sub' all show ?thesis by blast
  next
    case notloop: False
    show ?thesis
    proof (cases "ttype t = Some ''END_LOOP''")
      case True
      then obtain l rest where st: "stack = l # rest"
        using Cons.prems(1) notloop by (cases stack) auto
      have b: "balanced (length rest) ts" using Cons.prems(1) True notloop st by simp
      have lr: "l \<notin> set rest" and d: "distinct rest" using Cons.prems(4) st by auto
      have bel: "below i (l # rest) jm" using Cons.prems(3) st by simp
      from Cons.IH [OF b involutive_pop [OF Cons.prems(2) bel] below_pop [OF bel lr] d]
      obtain jm' where r: "jump_map_loop (Suc i) rest (jm(l \<mapsto> i, i \<mapsto> l)) ts = Inr jm'"
        and inv: "involutive jm'"
        and sub: "dom (jm(l \<mapsto> i, i \<mapsto> l)) \<union> set rest \<subseteq> dom jm'"
        and rest: "\<forall>k < length ts. is_loop_task (ts ! k) \<longrightarrow> Suc i + k \<in> dom jm'"
        by blast
      have eq: "jump_map_loop i stack jm (t # ts) = Inr jm'" using True notloop st r by simp
      have sub': "dom jm \<union> set stack \<subseteq> dom jm'" and ii: "i \<in> dom jm'"
        using sub st by auto
      have all: "\<forall>k < length (t # ts). is_loop_task ((t # ts) ! k) \<longrightarrow> i + k \<in> dom jm'"
      proof (intro allI impI)
        fix k assume "k < length (t # ts)" "is_loop_task ((t # ts) ! k)"
        from nth_Cons_cases [of k t ts is_loop_task, OF this]
        show "i + k \<in> dom jm'" using ii rest by auto
      qed
      from eq inv sub' all show ?thesis by blast
    next
      case False
      have b: "balanced (length stack) ts" using Cons.prems(1) False notloop by simp
      from Cons.IH [OF b Cons.prems(2) below_skip [OF Cons.prems(3)] Cons.prems(4)]
      obtain jm' where r: "jump_map_loop (Suc i) stack jm ts = Inr jm'"
        and inv: "involutive jm'"
        and sub: "dom jm \<union> set stack \<subseteq> dom jm'"
        and rest: "\<forall>k < length ts. is_loop_task (ts ! k) \<longrightarrow> Suc i + k \<in> dom jm'"
        by blast
      have eq: "jump_map_loop i stack jm (t # ts) = Inr jm'" using False notloop r by simp
      have nl: "\<not> is_loop_task t" using False notloop by (simp add: is_loop_task_def)
      have all: "\<forall>k < length (t # ts). is_loop_task ((t # ts) ! k) \<longrightarrow> i + k \<in> dom jm'"
      proof (intro allI impI)
        fix k assume "k < length (t # ts)" "is_loop_task ((t # ts) ! k)"
        from nth_Cons_cases [of k t ts is_loop_task, OF this]
        show "i + k \<in> dom jm'" using nl rest by auto
      qed
      from eq inv sub all show ?thesis by blast
    qed
  qed
qed

lemma counting_loop_jump_map:
  "build_jump_map counting_loop = Inr [0 \<mapsto> Suc (Suc 0), Suc (Suc 0) \<mapsto> 0]"
  by (simp add: build_jump_map_def counting_loop_def loop_task_def body_task_def
      end_loop_task_def plain_task_def)

text \<open>
  C5. For a well-nested task sequence the construction of the jump map succeeds, and the
  map pairs the indices: every index of a \<^verbatim>\<open>LOOP\<close> or \<^verbatim>\<open>END_LOOP\<close> is mapped to
  an index that is mapped back to it.
\<close>

theorem jump_map_pairs_loops:
  "well_nested task_queue \<Longrightarrow>
     \<exists>jump_map. build_jump_map task_queue = Inr jump_map
       \<and> (\<forall>i < length task_queue. is_loop_task (task_queue ! i) \<longrightarrow>
            (\<exists>j. jump_map i = Some j \<and> jump_map j = Some i))"
proof -
  assume "well_nested task_queue"
  then have b: "balanced (length ([]::nat list)) task_queue" by (simp add: well_nested_def)
  have i: "involutive Map.empty" "below 0 [] Map.empty" "distinct ([]::nat list)"
    by (simp_all add: involutive_def below_def)
  from jump_map_loop_balanced [OF b i]
  obtain jm' where r: "build_jump_map task_queue = Inr jm'"
    and inv: "involutive jm'"
    and rest: "\<forall>k < length task_queue. is_loop_task (task_queue ! k) \<longrightarrow> 0 + k \<in> dom jm'"
    unfolding build_jump_map_def by blast
  have "\<forall>i < length task_queue. is_loop_task (task_queue ! i) \<longrightarrow>
            (\<exists>j. jm' i = Some j \<and> jm' j = Some i)"
  proof (intro allI impI)
    fix i assume "i < length task_queue" "is_loop_task (task_queue ! i)"
    then have "i \<in> dom jm'" using rest by simp
    then obtain j where "jm' i = Some j" by auto
    then show "\<exists>j. jm' i = Some j \<and> jm' j = Some i"
      using inv unfolding involutive_def by blast
  qed
  with r show ?thesis by blast
qed

theorem jump_map_example:
  "well_nested counting_loop
   \<and> (\<exists>jump_map. build_jump_map counting_loop = Inr jump_map
         \<and> jump_map 0 = Some 2 \<and> jump_map 2 = Some 0)"
proof -
  have w: "well_nested counting_loop"
    by (simp add: well_nested_def counting_loop_def loop_task_def body_task_def
        end_loop_task_def plain_task_def)
  from jump_map_pairs_loops [OF w]
  obtain jump_map where b: "build_jump_map counting_loop = Inr jump_map" by blast
  then have "jump_map = [0 \<mapsto> Suc (Suc 0), Suc (Suc 0) \<mapsto> 0]"
    using counting_loop_jump_map by simp
  then show ?thesis using w b by (simp add: numeral_2_eq_2)
qed

section \<open>What the handlers leave unchanged\<close>

text \<open>
  No handler, action or log changes the running flag, and the count of invocations
  changes in the dispatcher only.
\<close>

lemma control_updates [simp]:
  "control (s\<lparr>world := w\<rparr>) = control s"
  "control (s\<lparr>printed := p\<rparr>) = control s"
  "control (s\<lparr>taps := tp\<rparr>) = control s"
  "control (s\<lparr>threshold := th\<rparr>) = control s"
  "control (s\<lparr>variables := vs\<rparr>) = control s"
  "control (s\<lparr>watched_variables := ws\<rparr>) = control s"
  "control (s\<lparr>success_counts := sc\<rparr>) = control s"
  "control (s\<lparr>last_success_time := lt\<rparr>) = control s"
  "control (s\<lparr>current_task := ct\<rparr>) = control s"
  by (simp_all add: control_def)

lemma control_log [simp]: "control (log t m s) = control s"
  by (simp add: log_def print_line_def split: option.split)

lemma control_print_line [simp]: "control (print_line m s) = control s"
  by (simp add: print_line_def)

lemma control_set_variable [simp]: "control (set_variable n v s) = control s"
  by (simp add: set_variable_def Let_def)

lemma control_tap: "tap X px py s = (r, s') \<Longrightarrow> control s' = control s"
  by (auto simp: tap_def split: prod.splits)

lemma control_screenshot: "screenshot X p s = (r, s') \<Longrightarrow> control s' = control s"
  by (auto simp: screenshot_def split: prod.splits)

lemma control_load: "load X p s = (r, s') \<Longrightarrow> control s' = control s"
  by (auto simp: load_def split: prod.splits)

lemma control_match_template: "match_template X a b s = (r, s') \<Longrightarrow> control s' = control s"
  by (auto simp: match_template_def split: prod.splits)

lemma control_sleep: "sleep X d s = (r, s') \<Longrightarrow> control s' = control s"
  by (auto simp: sleep_def split: if_splits)

lemma control_handle_screenshot: "handle_screenshot X t s = (r, s') \<Longrightarrow> control s' = control s"
  by (auto simp: handle_screenshot_def split: option.splits prod.splits if_splits
      dest: control_screenshot)

lemma control_handle_long_press: "handle_long_press X t s = (r, s') \<Longrightarrow> control s' = control s"
  by (auto simp: handle_long_press_def Let_def split: option.splits prod.splits if_splits)

lemma control_handle_restart_app: "handle_restart_app X t s = (r, s') \<Longrightarrow> control s' = control s"
  by (auto simp: handle_restart_app_def Let_def split: option.splits prod.splits if_splits)

lemma control_click_at: "click_at X t pos s = (r, s') \<Longrightarrow> control s' = control s"
  by (auto simp: click_at_def Let_def split: option.splits prod.splits if_splits
      dest!: control_tap)

lemma control_handle_wait: "handle_wait X t s = (r, s') \<Longrightarrow> control s' = control s"
  by (auto simp: handle_wait_def dest: control_sleep)

lemma control_handle_swipe: "handle_swipe X t s = (r, s') \<Longrightarrow> control s' = control s"
  by (auto simp: handle_swipe_def Let_def split: option.splits prod.splits if_splits)

lemma control_handle_set_variable: "handle_set_variable X t s = (r, s') \<Longrightarrow> control s' = control s"
  by (auto simp: handle_set_variable_def Let_def split: option.splits prod.splits if_splits)


lemma control_click_by_text:
  "click_by_text X E t img txt s = (r, s') \<Longrightarrow> control s' = control s"
  unfolding click_by_text_def Let_def
  by (auto split: prod.splits if_splits dest!: control_click_at)

lemma control_click_by_image:
  "click_by_image X t img p s = (r, s') \<Longrightarrow> control s' = control s"
  unfolding click_by_image_def Let_def
  by (auto split: option.splits prod.splits if_splits
      dest!: control_load control_match_template control_click_at)

lemma control_click_position:
  "click_position X t px py s = (r, s') \<Longrightarrow> control s' = control s"
  unfolding click_position_def Let_def
  by (auto split: prod.splits if_splits dest!: control_tap)

lemma control_handle_click: "handle_click X E t s = (r, s') \<Longrightarrow> control s' = control s"
  unfolding handle_click_def Let_def
  by (auto split: option.splits prod.splits if_splits
      dest!: control_screenshot control_load control_click_at control_click_by_text
        control_click_by_image control_click_position)

lemma control_try_target: "try_target X t img p s = (r, s') \<Longrightarrow> control s' = control s"
  unfolding try_target_def Let_def
  by (auto split: option.splits prod.splits if_splits
      dest!: control_tap control_load control_match_template)

lemma control_find_one_loop:
  "find_one_loop X t img th ps s = (r, s') \<Longrightarrow> control s' = control s"
proof (induction ps arbitrary: s)
  case Nil
  then show ?case by simp
next
  case (Cons p ps)
  obtain r1 s1 where tt: "try_target X t img p s = (r1, s1)" by (cases "try_target X t img p s")
  have c1: "control s1 = control s" using control_try_target [OF tt] .
  show ?case
  proof (cases r1)
    case None
    then have "find_one_loop X t img th ps s1 = (r, s')" using Cons.prems tt by simp
    then show ?thesis using Cons.IH c1 by simp
  next
    case (Some a)
    then show ?thesis using Cons.prems tt c1 by simp
  qed
qed

lemma control_handle_find_and_click_one:
  "handle_find_and_click_one X E t s = (r, s') \<Longrightarrow> control s' = control s"
  unfolding handle_find_and_click_one_def Let_def
  by (auto split: option.splits prod.splits if_splits
      dest!: control_screenshot control_load control_find_one_loop)

lemma control_handle_ocr: "handle_ocr X E t s = (r, s') \<Longrightarrow> control s' = control s"
  unfolding handle_ocr_def Let_def
  by (auto split: option.splits prod.splits if_splits
      dest!: control_screenshot control_load)

lemma control_dispatch:
  "dispatch X E t s = (r, s') \<Longrightarrow>
     is_running s' = is_running s \<and> invocations s' = Suc (invocations s)"
proof -
  assume d: "dispatch X E t s = (r, s')"
  let ?s0 = "s\<lparr>invocations := Suc (invocations s)\<rparr>"
  have "control s' = control ?s0"
    using d unfolding dispatch_def Let_def
    by (auto split: if_splits
        dest: control_handle_screenshot control_handle_click control_handle_long_press
          control_handle_wait control_handle_set_variable control_handle_swipe
          control_handle_ocr control_handle_find_and_click_one control_handle_restart_app)
  then show ?thesis by (simp add: control_def)
qed

lemma control_exec_statements:
  "exec_statements X stmts sc s = (r, s') \<Longrightarrow> control s' = control s"
proof (induction stmts arbitrary: sc s)
  case Nil
  then show ?case by simp
next
  case (Cons stmt stmts)
  show ?case
    using Cons.prems
    by (auto simp: Let_def split: if_splits prod.splits sum.splits dest!: Cons.IH)
qed

lemma control_execute_action:
  "execute_action X a s = (r, s') \<Longrightarrow> control s' = control s"
  unfolding execute_action_def Let_def by (rule control_exec_statements)

lemma control_handle_task_success [simp]: "control (handle_task_success X t s) = control s"
  by (simp add: handle_task_success_def Let_def control_def print_line_def split: option.split)

lemma handle_task_success_fields [simp]:
  "is_running (handle_task_success X t s) = is_running s"
  "invocations (handle_task_success X t s) = invocations s"
  using control_handle_task_success [of X t s] by (simp_all add: control_def)

lemma control_on_failure:
  "on_failure X E t a e s = (r, s') \<Longrightarrow> control s' = control s"
  unfolding on_failure_def Let_def
  by (auto split: if_splits option.splits prod.splits sum.splits
      dest!: control_execute_action control_sleep)

lemma running_attempt_body:
  "attempt_body X E t tmo st s = (r, s') \<Longrightarrow> is_running s' = is_running s"
  unfolding attempt_body_def
  by (auto simp: control_def split: if_splits option.splits prod.splits sum.splits
      dest!: control_execute_action control_dispatch)


section \<open>The task executor\<close>






lemma pre_condition_holds_state:
  assumes "\<forall>c. pre_condition t = Some c \<longrightarrow> fst (evaluate_expression X c s) = Inr True"
  shows "execute_task X E fuel t s = execute_attempts X E fuel t s"
proof (cases "pre_condition t")
  case None
  then show ?thesis by (simp add: execute_task_def)
next
  case (Some c)
  then have t: "fst (evaluate_expression X c s) = Inr True" using assms by simp
  then have "snd (evaluate_expression X c s) = s"
    unfolding evaluate_expression_def Let_def by (rule eval_conditions_true_state)
  with t have "evaluate_expression X c s = (Inr True, s)"
    by (cases "evaluate_expression X c s") simp
  then show ?thesis using Some by (simp add: execute_task_def)
qed

lemma example_ext_simps:
  "py_eval example_ext = eval_fragment"
  "isidentifier example_ext = identifier_fragment"
  "time_now example_ext w = w"
  "time_sleep example_ext d w = w + d"
  "adb_screenshot example_ext path w = ((True, None), w)"
  "adb_tap example_ext px py w = ((True, Some []), w)"
  "load_image example_ext path w
     = (if path = ''missing.png'' then None else Some (Image (length path)), w)"
  "find_template example_ext source_img template_img thr w
     = (if template_img = Image 5 then Some (100, 200) else None, w)"
  "is_running_callable example_ext w = (True, w)"
  "progress_callback example_ext = None"
  "path_join example_ext dir file = dir @ ''/'' @ file"
  by (simp_all add: example_ext_def)














lemma blocking_on_failure:
  assumes "wait_for_success t" and "0 \<le> retry_delay E"
  shows "\<exists>s'. on_failure X E t a e s = (Inr (), s') \<and> control s' = control s"
  using assms by (simp add: on_failure_def sleep_def)

lemma blocking_loop_never_raises:
  assumes "wait_for_success t" and "0 \<le> retry_delay E"
  shows "fst (attempt_loop X E t tmo st fuel a s) \<noteq> Some (Inl e)"
proof (induction fuel arbitrary: a s)
  case 0
  then show ?case by simp
next
  case (Suc fuel)
  show ?case
  proof (cases "is_running s")
    case False
    then show ?thesis by simp
  next
    case True
    obtain r s1 where ab: "attempt_body X E t tmo st s = (r, s1)"
      by (cases "attempt_body X E t tmo st s")
    show ?thesis
    proof (cases r)
      case (Inr u)
      then show ?thesis using True ab by simp
    next
      case (Inl e1)
      from blocking_on_failure [OF assms, of X "a + 1" e1 s1]
      obtain s2 where "on_failure X E t (a + 1) e1 s1 = (Inr (), s2)" by blast
      then show ?thesis using True ab Inl Suc.IH by simp
    qed
  qed
qed

lemma attempt_body_action_fails:
  assumes "\<forall>s'. isl (fst (dispatch X E t s'))"
  shows "\<exists>e s1. attempt_body X E t tmo st s = (Inl e, s1) \<and> is_running s1 = is_running s"
proof -
  from assms have "isl (fst (dispatch X E t s))" by blast
  then obtain e s1 where d: "dispatch X E t s = (Inl e, s1)"
    by (cases "dispatch X E t s") (auto simp: isl_def)
  obtain r s2 where ab: "attempt_body X E t tmo st s = (r, s2)"
    by (cases "attempt_body X E t tmo st s")
  then have "isl r" using d by (auto simp: attempt_body_def split: option.splits if_splits)
  then show ?thesis using ab running_attempt_body [OF ab] by (auto simp: isl_def)
qed

lemma blocking_loop_goes_on:
  assumes "wait_for_success t" and "0 \<le> retry_delay E"
    and fails: "\<forall>s'. isl (fst (dispatch X E t s'))"
  shows "is_running s \<Longrightarrow> fst (attempt_loop X E t tmo st fuel a s) = None"
proof (induction fuel arbitrary: a s)
  case 0
  then show ?case by simp
next
  case (Suc fuel)
  from attempt_body_action_fails [OF fails]
  obtain e1 s1 where ab: "attempt_body X E t tmo st s = (Inl e1, s1)"
    and r1: "is_running s1 = is_running s" by blast
  from blocking_on_failure [OF assms(1,2), of X "a + 1" e1 s1]
  obtain s2 where of: "on_failure X E t (a + 1) e1 s1 = (Inr (), s2)"
    and c: "control s2 = control s1" by blast
  have "is_running s2" using c r1 Suc.prems by (simp add: control_def)
  then have "fst (attempt_loop X E t tmo st fuel (a + 1) s2) = None" by (rule Suc.IH)
  then show ?case using Suc.prems ab of by simp
qed

lemma blocking_task_dispatch:
  "dispatch example_ext example_settings blocking_task s
     = (Inl (key_error ''save_path''), s\<lparr>invocations := Suc (invocations s)\<rparr>)"
  by (simp add: dispatch_def blocking_task_def plain_task_def handle_screenshot_def)

lemma blocking_task_attempt:
  "attempt_body example_ext example_settings blocking_task (Some 2) 0 s
     = (if world s > 2 then (Inl (timeout_error 2), s)
        else (Inl (key_error ''save_path''), s\<lparr>invocations := Suc (invocations s)\<rparr>))"
  by (simp add: attempt_body_def blocking_task_dispatch example_ext_simps)

lemma blocking_task_retry:
  "on_failure example_ext example_settings blocking_task a e s = (Inr (), s\<lparr>world := world s + 1\<rparr>)"
  by (simp add: on_failure_def blocking_task_def plain_task_def example_settings_def sleep_def
      log_def example_ext_simps)

lemma blocking_task_clock:
  "world (snd (execute_task example_ext example_settings 6 blocking_task example_engine)) = 6"
proof -
  have p: "pre_condition blocking_task = None"
    "effective_timeout example_settings blocking_task = Some 2"
    by (simp_all add: blocking_task_def plain_task_def effective_timeout_def)
  have r: "is_running example_engine" "world example_engine = 0"
    by (simp_all add: example_engine_def)
  have six: "(6::nat) = Suc (Suc (Suc (Suc (Suc (Suc 0)))))" by simp
  show ?thesis
    unfolding six
    by (simp add: execute_task_def p execute_attempts_def r Let_def example_ext_simps
        blocking_task_attempt blocking_task_retry)
qed

text \<open>
  C1. A blocking task does not raise \<^verbatim>\<open>TimeoutError\<close> once its deadline has passed.
  The \<^verbatim>\<open>raise TimeoutError\<close> stands inside the \<^verbatim>\<open>try\<close> whose \<^verbatim>\<open>except Exception\<close>
  catches it, and for a blocking task that handler only logs and sleeps. So a blocking task
  never raises anything (with a retry delay that \<^verbatim>\<open>time.sleep\<close> accepts), and when its
  action fails on every attempt in a running engine, the loop is still running after any
  number of attempts, whatever the timeout and the clock.
\<close>

theorem blocking_task_retries_past_deadline:
  assumes "wait_for_success t" and "0 \<le> retry_delay E"
  shows "(\<forall>e. fst (execute_task X E fuel t s) \<noteq> Some (Inl e)) \<and>
         (is_running s \<longrightarrow>
          (\<forall>c. pre_condition t = Some c \<longrightarrow> fst (evaluate_expression X c s) = Inr True) \<longrightarrow>
          (\<forall>s'. isl (fst (dispatch X E t s'))) \<longrightarrow>
          fst (execute_task X E fuel t s) = None)"
proof (intro conjI allI impI)
  fix e
  show "fst (execute_task X E fuel t s) \<noteq> Some (Inl e)"
  proof (cases "pre_condition t")
    case None
    then show ?thesis
      using blocking_loop_never_raises [OF assms]
      by (simp add: execute_task_def execute_attempts_def Let_def)
  next
    case (Some c)
    obtain r s1 where ev: "evaluate_expression X c s = (r, s1)"
      by (cases "evaluate_expression X c s")
    obtain b where "r = Inr b"
      using ev eval_conditions_total [of X _ _ s]
      unfolding evaluate_expression_def Let_def by (metis fst_conv)
    then show ?thesis
      using Some ev
        blocking_loop_never_raises [OF assms, of X "effective_timeout E t"
          "time_now X (world s1)" fuel 0 s1 e]
      by (simp add: execute_task_def execute_attempts_def Let_def)
  qed
next
  assume run: "is_running s"
    and pre: "\<forall>c. pre_condition t = Some c \<longrightarrow> fst (evaluate_expression X c s) = Inr True"
    and fails: "\<forall>s'. isl (fst (dispatch X E t s'))"
  show "fst (execute_task X E fuel t s) = None"
    using blocking_loop_goes_on [OF assms fails run] pre_condition_holds_state [OF pre]
    by (simp add: execute_attempts_def Let_def)
qed

theorem blocking_task_example:
  "wait_for_success blocking_task \<and> timeout blocking_task = Some 2
   \<and> 0 \<le> retry_delay example_settings \<and> is_running example_engine
   \<and> fst (execute_task example_ext example_settings 6 blocking_task example_engine) = None
   \<and> world (snd (execute_task example_ext example_settings 6 blocking_task example_engine)) = 6"
proof -
  have h: "wait_for_success blocking_task" "0 \<le> retry_delay example_settings"
    "is_running example_engine" "timeout blocking_task = Some 2"
    "\<forall>c. pre_condition blocking_task = Some c \<longrightarrow>
         fst (evaluate_expression example_ext c example_engine) = Inr True"
    by (simp_all add: blocking_task_def plain_task_def example_settings_def example_engine_def)
  have f: "\<forall>s'. isl (fst (dispatch example_ext example_settings blocking_task s'))"
    by (simp add: blocking_task_dispatch)
  from blocking_task_retries_past_deadline [OF h(1) h(2), of example_ext 6 example_engine] h(3) h(5) f
  have "fst (execute_task example_ext example_settings 6 blocking_task example_engine) = None"
    by blast
  then show ?thesis using h blocking_task_clock by simp
qed

section \<open>Find and click one\<close>

lemma log_keeps [simp]:
  "threshold (log t m s) = threshold s" "taps (log t m s) = taps s"
  by (simp_all add: log_def print_line_def split: option.split)











end
